theory Spec2Isabelle
  imports Complex_Main "HOL-Library.AList" "HOL-Library.Char_ord" "HOL-Library.List_Lexorder"
begin

section \<open>Data model (src/types/assessment.types.ts, analysis.types.ts)\<close>

text \<open>
  A JavaScript \<open>number\<close> that carries points, weights or percentages is a
  \<^typ>\<open>real\<close>. The functions of the first sections evaluate the formulas of the
  source in exact arithmetic; the section on double precision repeats the functions
  whose claims depend on rounding, with every operation rounded to a binary64 value as
  the program computes it. The values \<open>NaN\<close> and \<open>Infinity\<close> are outside the
  model. Answer indices are \<^typ>\<open>int\<close>, counters are \<^typ>\<open>nat\<close>.
\<close>

datatype QuestionType = multipleChoice | trueFalse | multipleSelect

datatype CategoryName =
    PatternRecognitionAndSequences
  | LogicalReasoning
  | AbstractThinking
  | SystematicProblemSolving
  | AttentionToDetail
  | SpatialAndVisualReasoning
  | MathematicalReasoning
  | RuleApplication

datatype TierLevel = Tier1 | Tier2 | Tier3 | Tier4 | Tier5


datatype PerformanceClassification =
    exceptional | strength | adequate | weakness | critical_weakness

text \<open>The number behind a \<open>TierLevel\<close> literal (\<open>1 | 2 | 3 | 4 | 5\<close>).\<close>

fun tier_level :: "TierLevel \<Rightarrow> nat" where
  "tier_level Tier1 = 1"
| "tier_level Tier2 = 2"
| "tier_level Tier3 = 3"
| "tier_level Tier4 = 4"
| "tier_level Tier5 = 5"

text \<open>
  The position of a classification in the order of the bands, lowest first, as the
  comments of the type give it (0-44, 45-59, 60-74, 75-84, 85-100).
\<close>

fun classification_band :: "PerformanceClassification \<Rightarrow> nat" where
  "classification_band critical_weakness = 0"
| "classification_band weakness = 1"
| "classification_band adequate = 2"
| "classification_band strength = 3"
| "classification_band exceptional = 4"

record Answer =
  a_id :: int
  a_text :: string

text \<open>
  Field names carry the prefix of their interface (\<open>q_\<close> Question, \<open>qr_\<close>
  QuestionResult, \<open>cr_\<close> CategoryResult, \<open>ov_\<close> OverallResult), since several
  interfaces share names such as \<open>earnedPoints\<close>.
\<close>

record Question =
  q_id :: string
  q_text :: string
  q_type :: QuestionType
  q_category :: CategoryName
  q_answers :: "Answer list"
  q_correctAnswers :: "int list"
  q_score :: real
  q_weight :: real

record PartialCreditDetails =
  correctSelections :: nat
  incorrectSelections :: nat
  missedSelections :: int
  correctRatio :: real
  penaltyFactor :: real

text \<open>
  The value stored as \<open>timeSpent\<close>: a number of seconds, or the member of
  \<open>Object.prototype\<close> that a lookup by question id can return (see
  \<open>scoreQuestions\<close>).
\<close>

datatype TimeSpent = Seconds real | InheritedMember

record QuestionResult =
  qr_questionId :: string
  qr_category :: CategoryName
  qr_type :: QuestionType
  qr_userAnswers :: "int list"
  qr_correctAnswers :: "int list"
  qr_earnedPoints :: real
  qr_maxPoints :: real
  qr_percentage :: real
  qr_isCorrect :: bool
  qr_isPartialCredit :: bool
  qr_partialCreditDetails :: "PartialCreditDetails option"
  qr_weight :: real
  qr_timeSpent :: "TimeSpent option"




section \<open>Tier system (src/constants/tiers.ts)\<close>

definition getTierFromPercentage :: "real \<Rightarrow> TierLevel" where
  "getTierFromPercentage percentage =
     (if percentage \<ge> 85 then Tier5
      else if percentage \<ge> 70 then Tier4
      else if percentage \<ge> 55 then Tier3
      else if percentage \<ge> 40 then Tier2
      else Tier1)"


text \<open>
  \<open>PERFORMANCE_THRESHOLDS.EXCEPTIONAL.min = 85\<close>, \<open>STRENGTH.min = 75\<close>,
  \<open>ADEQUATE.min = 60\<close>, \<open>WEAKNESS.min = 45\<close>.
\<close>

definition getPerformanceClassification :: "real \<Rightarrow> PerformanceClassification" where
  "getPerformanceClassification percentage =
     (if percentage \<ge> 85 then exceptional
      else if percentage \<ge> 75 then strength
      else if percentage \<ge> 60 then adequate
      else if percentage \<ge> 45 then weakness
      else critical_weakness)"

section \<open>Question scorer (question-scorer module)\<close>

text \<open>
  A JavaScript \<open>Set\<close> built from an array: the elements in the order of their first
  insertion, each once. \<open>size\<close> is the length of the list, \<open>has\<close> is membership.
\<close>

definition Set_add :: "'a list \<Rightarrow> 'a \<Rightarrow> 'a list" where
  "Set_add s x = (if x \<in> set s then s else s @ [x])"

definition new_Set :: "'a list \<Rightarrow> 'a list" where
  "new_Set xs = foldl Set_add [] xs"

text \<open>
  Every \<open>throw\<close> of \<open>validateQuestionInput\<close>, with the values its message names,
  and the \<open>TypeError\<close> of its loop \<open>for (const answer of userAnswers)\<close> over a
  value that is not iterable.
\<close>

datatype ScoringError =
    MustHaveId
  | MustHaveCorrectAnswers string
  | MustHaveValidScore string
  | MustHaveAnswers string
  | InvalidAnswerIndex int string
  | InvalidCorrectAnswerIndex int string
  | TrueFalseNeedsTwoAnswers string
  | TrueFalseNeedsOneCorrect string
  | MultipleChoiceNeedsTwoAnswers string
  | MultipleChoiceNeedsOneCorrect string
  | MultipleSelectNeedsTwoAnswers string
  | MultipleSelectNeedsOneCorrect string
  | NotIterable

text \<open>
  \<open>validateQuestionInput\<close> returns nothing or throws: \<open>None\<close> is the normal return.
  The test \<open>!question.type\<close> cannot fire on a value of the closed type
  \<open>QuestionType\<close>, and \<open>typeof question.score !== 'number'\<close> cannot fire on a number.
\<close>

definition validateQuestionInput :: "Question \<Rightarrow> int list \<Rightarrow> ScoringError option" where
  "validateQuestionInput question userAnswers =
     (if q_id question = [] then Some MustHaveId
      else if length (q_correctAnswers question) = 0
        then Some (MustHaveCorrectAnswers (q_id question))
      else if q_score question < 0 then Some (MustHaveValidScore (q_id question))
      else if length (q_answers question) = 0 then Some (MustHaveAnswers (q_id question))
      else
        let maxIndex = int (length (q_answers question)) - 1 in
        case find (\<lambda>answer. answer < 0 \<or> answer > maxIndex) userAnswers of
          Some answer \<Rightarrow> Some (InvalidAnswerIndex answer (q_id question))
        | None \<Rightarrow>
        (case find (\<lambda>answer. answer < 0 \<or> answer > maxIndex) (q_correctAnswers question) of
          Some answer \<Rightarrow> Some (InvalidCorrectAnswerIndex answer (q_id question))
        | None \<Rightarrow>
        (case q_type question of
          trueFalse \<Rightarrow>
            if length (q_answers question) \<noteq> 2
              then Some (TrueFalseNeedsTwoAnswers (q_id question))
            else if length (q_correctAnswers question) \<noteq> 1
              then Some (TrueFalseNeedsOneCorrect (q_id question))
            else None
        | multipleChoice \<Rightarrow>
            if length (q_answers question) < 2
              then Some (MultipleChoiceNeedsTwoAnswers (q_id question))
            else if length (q_correctAnswers question) \<noteq> 1
              then Some (MultipleChoiceNeedsOneCorrect (q_id question))
            else None
        | multipleSelect \<Rightarrow>
            if length (q_answers question) < 2
              then Some (MultipleSelectNeedsTwoAnswers (q_id question))
            else if length (q_correctAnswers question) < 1
              then Some (MultipleSelectNeedsOneCorrect (q_id question))
            else None)))"

text \<open>
  \<open>userAnswers.length === 1 && question.correctAnswers.length === 1 &&
  userAnswers[0] === question.correctAnswers[0]\<close>; the index 0 is read only after both
  lengths are known to be 1.
\<close>

definition scoreStandardQuestion :: "Question \<Rightarrow> int list \<Rightarrow> real \<times> bool" where
  "scoreStandardQuestion question userAnswers =
     (let isCorrect =
            (length userAnswers = 1 \<and> length (q_correctAnswers question) = 1
             \<and> userAnswers ! 0 = q_correctAnswers question ! 0);
          earnedPoints = (if isCorrect then q_score question else 0)
      in (earnedPoints, isCorrect))"

text \<open>
  The counting loop of \<open>scoreMultipleSelectQuestion\<close> over the set of user answers:
  the state is the pair (correctSelections, incorrectSelections).
\<close>

definition count_selection :: "int list \<Rightarrow> nat \<times> nat \<Rightarrow> int \<Rightarrow> nat \<times> nat" where
  "count_selection correctAnswers counts answer =
     (if answer \<in> set correctAnswers then (fst counts + 1, snd counts)
      else (fst counts, snd counts + 1))"

definition scoreMultipleSelectQuestion ::
    "Question \<Rightarrow> int list \<Rightarrow> real \<times> bool \<times> PartialCreditDetails" where
  "scoreMultipleSelectQuestion question userAnswers =
     (let correctAnswers = new_Set (q_correctAnswers question);
          userAnswerSet = new_Set userAnswers;
          counts = foldl (count_selection correctAnswers) (0, 0) userAnswerSet;
          correctSelections = fst counts;
          incorrectSelections = snd counts;
          missedSelections = int (length correctAnswers) - int correctSelections;
          totalCorrectAnswers = length correctAnswers;
          correctRatio =
            (if totalCorrectAnswers > 0
             then real correctSelections / real totalCorrectAnswers else 0);
          penaltyFactor =
            (if totalCorrectAnswers > 0
             then max 0 (1 - real incorrectSelections / real totalCorrectAnswers) else 0);
          earnedPoints = q_score question * correctRatio * penaltyFactor;
          isCorrect = (correctSelections = totalCorrectAnswers \<and> incorrectSelections = 0)
      in (earnedPoints, isCorrect,
          \<lparr> correctSelections = correctSelections,
            incorrectSelections = incorrectSelections,
            missedSelections = missedSelections,
            correctRatio = correctRatio,
            penaltyFactor = penaltyFactor \<rparr>))"

text \<open>
  \<open>scoreQuestion\<close>: a \<open>throw\<close> of the validation is the left injection. The
  \<open>default\<close> branch of the switch (unknown question type) has no value of
  \<open>QuestionType\<close> that reaches it.
\<close>

definition scoreQuestion ::
    "Question \<Rightarrow> int list \<Rightarrow> TimeSpent option \<Rightarrow> ScoringError + QuestionResult" where
  "scoreQuestion question userAnswers timeSpent =
     (case validateQuestionInput question userAnswers of
        Some e \<Rightarrow> Inl e
      | None \<Rightarrow>
        let (earnedPoints, isCorrect, isPartialCredit, partialCreditDetails) =
              (case q_type question of
                 multipleSelect \<Rightarrow>
                   (let (earned, correct, details) =
                          scoreMultipleSelectQuestion question userAnswers
                    in (earned, correct, earned > 0 \<and> earned < q_score question,
                        Some details))
               | _ \<Rightarrow>
                   (let (earned, correct) = scoreStandardQuestion question userAnswers
                    in (earned, correct, False, None)));
            percentage =
              (if q_score question > 0 then (earnedPoints / q_score question) * 100 else 0)
        in Inr \<lparr> qr_questionId = q_id question,
                 qr_category = q_category question,
                 qr_type = q_type question,
                 qr_userAnswers = userAnswers,
                 qr_correctAnswers = q_correctAnswers question,
                 qr_earnedPoints = earnedPoints,
                 qr_maxPoints = q_score question,
                 qr_percentage = percentage,
                 qr_isCorrect = isCorrect,
                 qr_isPartialCredit = isPartialCredit,
                 qr_partialCreditDetails = partialCreditDetails,
                 qr_weight = q_weight question,
                 qr_timeSpent = timeSpent \<rparr>)"

text \<open>
  A \<open>Record<string, T>\<close> is a plain object. Reading \<open>obj[key]\<close> gives the value of
  the own property \<open>key\<close>; without one, the member of \<open>Object.prototype\<close> of that
  name, if \<open>key\<close> is one of its twelve property names; and \<open>undefined\<close> otherwise.
\<close>

datatype 'a Property = Own 'a | Inherited | Undefined

definition Object_prototype_names :: "string list" where
  "Object_prototype_names =
     [''constructor'', ''__defineGetter__'', ''__defineSetter__'', ''hasOwnProperty'',
      ''__lookupGetter__'', ''__lookupSetter__'', ''isPrototypeOf'',
      ''propertyIsEnumerable'', ''toString'', ''valueOf'', ''__proto__'',
      ''toLocaleString'']"

definition get_property :: "(string \<rightharpoonup> 'a) \<Rightarrow> string \<Rightarrow> 'a Property" where
  "get_property obj key =
     (case obj key of
        Some v \<Rightarrow> Own v
      | None \<Rightarrow> if key \<in> set Object_prototype_names then Inherited else Undefined)"

text \<open>
  The checks of \<open>validateQuestionInput\<close> that run before its loop over
  \<open>userAnswers\<close>.
\<close>

definition validateRequiredFields :: "Question \<Rightarrow> ScoringError option" where
  "validateRequiredFields question =
     (if q_id question = [] then Some MustHaveId
      else if length (q_correctAnswers question) = 0
        then Some (MustHaveCorrectAnswers (q_id question))
      else if q_score question < 0 then Some (MustHaveValidScore (q_id question))
      else if length (q_answers question) = 0 then Some (MustHaveAnswers (q_id question))
      else None)"

text \<open>
  \<open>scoreQuestion\<close> called with a member of \<open>Object.prototype\<close> as \<open>userAnswers\<close>:
  these members are functions and one object, all truthy and none iterable, so the
  validation throws the error of its first checks or else the \<open>TypeError\<close> of its
  loop.
\<close>

definition scoreQuestion_notIterable :: "Question \<Rightarrow> ScoringError" where
  "scoreQuestion_notIterable question =
     (case validateRequiredFields question of Some e \<Rightarrow> e | None \<Rightarrow> NotIterable)"

text \<open>
  \<open>scoreQuestions\<close> maps \<open>scoreQuestion\<close> over the questions; the first \<open>throw\<close>
  ends the pass. \<open>userAnswers[question.id] || []\<close> is the array stored under the id
  (an array is truthy, also when empty), the inherited member when the id names one, and
  the empty array otherwise; \<open>timeSpent?.[question.id]\<close> is read in the same way
  when the map is given.
\<close>

fun scoreQuestions ::
    "Question list \<Rightarrow> (string \<rightharpoonup> int list) \<Rightarrow> (string \<rightharpoonup> real) option
     \<Rightarrow> ScoringError + QuestionResult list" where
  "scoreQuestions [] userAnswers timeSpent = Inr []"
| "scoreQuestions (question # questions) userAnswers timeSpent =
     (let time = (case timeSpent of
                    Some m \<Rightarrow>
                      (case get_property m (q_id question) of
                         Own t \<Rightarrow> Some (Seconds t)
                       | Inherited \<Rightarrow> Some InheritedMember
                       | Undefined \<Rightarrow> None)
                  | None \<Rightarrow> None);
          scored = (case get_property userAnswers (q_id question) of
                      Own answers \<Rightarrow> scoreQuestion question answers time
                    | Inherited \<Rightarrow> Inl (scoreQuestion_notIterable question)
                    | Undefined \<Rightarrow> scoreQuestion question [] time)
      in case scored of
           Inl e \<Rightarrow> Inl e
         | Inr r \<Rightarrow>
           (case scoreQuestions questions userAnswers timeSpent of
              Inl e \<Rightarrow> Inl e
            | Inr rs \<Rightarrow> Inr (r # rs)))"


section \<open>Category scorer (src/scoring/category-scorer.ts)\<close>









section \<open>Overall scorer (overall-scorer module)\<close>




section \<open>Performance analyzer (performance-analyzer module)\<close>


section \<open>Double precision\<close>

text \<open>
  The program computes with binary64 numbers: the result of an operation is its exact
  result rounded to the nearest representable number, a tie going to the even
  significand. A number with binary exponent \<open>e\<close> is a multiple of \<open>2 powi (e - 52)\<close>,
  and the exponent is at least \<open>-1022\<close> (the subnormal numbers share that exponent).
  Overflow to \<open>Infinity\<close> is outside the model.
\<close>

definition round_to_even :: "real \<Rightarrow> int" where
  "round_to_even r =
     (let f = \<lfloor>r\<rfloor>; d = r - of_int f
      in if d < 1 / 2 then f
         else if d > 1 / 2 then f + 1
         else if even f then f else f + 1)"

definition double :: "real \<Rightarrow> real" where
  "double x =
     (if x = 0 then 0
      else let e = max (- 1022) \<lfloor>log 2 \<bar>x\<bar>\<rfloor>;
               u = 2 powi (e - 52)
           in of_int (round_to_even (x / u)) * u)"


definition dsub :: "real \<Rightarrow> real \<Rightarrow> real" where
  "dsub x y = double (x - y)"








section \<open>Example inputs\<close>

definition four_options :: "Answer list" where
  "four_options =
     [\<lparr>a_id = 0, a_text = ''A''\<rparr>, \<lparr>a_id = 1, a_text = ''B''\<rparr>,
      \<lparr>a_id = 2, a_text = ''C''\<rparr>, \<lparr>a_id = 3, a_text = ''D''\<rparr>]"

text \<open>A multiple-select question with the correct answers 0 and 1 and the score \<open>s\<close>.\<close>

definition select_question :: "real \<Rightarrow> Question" where
  "select_question s =
     \<lparr> q_id = ''lr-002'', q_text = ''Which hold?'', q_type = multipleSelect,
       q_category = LogicalReasoning, q_answers = four_options,
       q_correctAnswers = [0, 1], q_score = s, q_weight = 2 \<rparr>"

definition choice_question :: Question where
  "choice_question =
     \<lparr> q_id = ''pr-001'', q_text = ''Which is next?'', q_type = multipleChoice,
       q_category = PatternRecognitionAndSequences, q_answers = four_options,
       q_correctAnswers = [0], q_score = 10, q_weight = 3 \<rparr>"









text \<open>A valid multiple-choice question whose id names a member of \<open>Object.prototype\<close>.\<close>

definition constructor_question :: Question where
  "constructor_question =
     \<lparr> q_id = ''constructor'', q_text = ''Which is next?'', q_type = multipleChoice,
       q_category = PatternRecognitionAndSequences, q_answers = four_options,
       q_correctAnswers = [0], q_score = 10, q_weight = 3 \<rparr>"

section \<open>Properties of the tier and classification mappers\<close>

text \<open>
  C3. Both mappers are step functions of the percentage with inclusive lower bounds:
  the tier is 1 on [0,40), 2 on [40,55), 3 on [55,70), 4 on [70,85) and 5 on [85,100];
  the classification is critical-weakness on [0,45), weakness on [45,60), adequate on
  [60,75), strength on [75,85) and exceptional on [85,100]. Both are monotonic
  non-decreasing, so each boundary value lies in the higher band, and being total
  functions they give every percentage exactly one value.
\<close>

theorem tier_classification_step_functions:
  fixes p q :: real
  shows "(0 \<le> p \<and> p < 40 \<longrightarrow> tier_level (getTierFromPercentage p) = 1)
       \<and> (40 \<le> p \<and> p < 55 \<longrightarrow> tier_level (getTierFromPercentage p) = 2)
       \<and> (55 \<le> p \<and> p < 70 \<longrightarrow> tier_level (getTierFromPercentage p) = 3)
       \<and> (70 \<le> p \<and> p < 85 \<longrightarrow> tier_level (getTierFromPercentage p) = 4)
       \<and> (85 \<le> p \<and> p \<le> 100 \<longrightarrow> tier_level (getTierFromPercentage p) = 5)
       \<and> (0 \<le> p \<and> p < 45 \<longrightarrow> getPerformanceClassification p = critical_weakness)
       \<and> (45 \<le> p \<and> p < 60 \<longrightarrow> getPerformanceClassification p = weakness)
       \<and> (60 \<le> p \<and> p < 75 \<longrightarrow> getPerformanceClassification p = adequate)
       \<and> (75 \<le> p \<and> p < 85 \<longrightarrow> getPerformanceClassification p = strength)
       \<and> (85 \<le> p \<and> p \<le> 100 \<longrightarrow> getPerformanceClassification p = exceptional)
       \<and> (p \<le> q \<longrightarrow> tier_level (getTierFromPercentage p) \<le> tier_level (getTierFromPercentage q))
       \<and> (p \<le> q \<longrightarrow> classification_band (getPerformanceClassification p)
                      \<le> classification_band (getPerformanceClassification q))
       \<and> (\<exists>!t. getTierFromPercentage p = t)
       \<and> (\<exists>!c. getPerformanceClassification p = c)"
  by (simp add: getTierFromPercentage_def getPerformanceClassification_def)

theorem tier_classification_step_functions_witness:
  "tier_level (getTierFromPercentage 40) = 2
   \<and> getPerformanceClassification 45 = weakness
   \<and> tier_level (getTierFromPercentage 40) \<le> tier_level (getTierFromPercentage 85)
   \<and> classification_band (getPerformanceClassification 40)
        \<le> classification_band (getPerformanceClassification 85)"
  using tier_classification_step_functions [of 40 85]
        tier_classification_step_functions [of 45 85]
  by simp

section \<open>Properties of the question scorer\<close>

lemma foldl_Set_add:
  "set (foldl Set_add acc xs) = set acc \<union> set xs
   \<and> (distinct acc \<longrightarrow> distinct (foldl Set_add acc xs))"
  by (induction xs arbitrary: acc) (auto simp: Set_add_def)

lemma set_new_Set [simp]: "set (new_Set xs) = set xs"
  by (simp add: new_Set_def foldl_Set_add)

lemma distinct_new_Set [simp]: "distinct (new_Set xs)"
  by (simp add: new_Set_def foldl_Set_add)

lemma length_new_Set: "length (new_Set xs) = card (set xs)"
  using distinct_card [OF distinct_new_Set, of xs] by simp

lemma foldl_count_selection:
  "foldl (count_selection C) (c0, w0) us =
     (c0 + length (filter (\<lambda>a. a \<in> set C) us), w0 + length (filter (\<lambda>a. a \<notin> set C) us))"
  by (induction us arbitrary: c0 w0) (auto simp: count_selection_def)

lemma count_new_Set:
  "foldl (count_selection C) (0, 0) (new_Set us) = (card (set us \<inter> set C), card (set us - set C))"
proof -
  have a: "length (filter (\<lambda>a. a \<in> set C) (new_Set us)) = card (set us \<inter> set C)"
  proof -
    have "set C \<inter> set (new_Set us) = set us \<inter> set C" by auto
    then show ?thesis by (simp add: distinct_length_filter)
  qed
  have b: "length (filter (\<lambda>a. a \<notin> set C) (new_Set us)) = card (set us - set C)"
  proof -
    have "{x. x \<notin> set C} \<inter> set (new_Set us) = set us - set C" by auto
    then show ?thesis by (simp add: distinct_length_filter)
  qed
  show ?thesis by (simp add: foldl_count_selection a b)
qed

lemma scoreMultipleSelectQuestion_eq:
  "scoreMultipleSelectQuestion q ua =
    (let k = card (set (q_correctAnswers q)); c = card (set ua \<inter> set (q_correctAnswers q));
         w = card (set ua - set (q_correctAnswers q));
         correctRatio = (if k > 0 then real c / real k else 0);
         penaltyFactor = (if k > 0 then max 0 (1 - real w / real k) else 0)
     in (q_score q * correctRatio * penaltyFactor, c = k \<and> w = 0,
         \<lparr> correctSelections = c, incorrectSelections = w, missedSelections = int k - int c,
           correctRatio = correctRatio, penaltyFactor = penaltyFactor \<rparr>))"
  unfolding scoreMultipleSelectQuestion_def Let_def count_new_Set length_new_Set set_new_Set
  by simp

lemma validateQuestionInput_NoneD:
  assumes "validateQuestionInput q ua = None"
  shows "q_correctAnswers q \<noteq> []" and "0 \<le> q_score q"
    and "q_type q \<noteq> multipleSelect \<Longrightarrow> length (q_correctAnswers q) = 1"
  using assms
  by (auto simp: validateQuestionInput_def Let_def
           split: if_splits option.splits QuestionType.splits)

lemma validateQuestionInput_empty:
  assumes "validateQuestionInput q ua = None"
  shows "validateQuestionInput q [] = None"
  using assms
  by (auto simp: validateQuestionInput_def Let_def
           split: if_splits option.splits QuestionType.splits)

lemma scoreQuestion_Inl:
  "validateQuestionInput q ua = Some e \<Longrightarrow> scoreQuestion q ua t = Inl e"
  by (simp add: scoreQuestion_def)

lemma scoreQuestion_multipleSelect:
  assumes "validateQuestionInput q ua = None" and "q_type q = multipleSelect"
  shows "\<exists>r. scoreQuestion q ua t = Inr r
           \<and> qr_earnedPoints r = fst (scoreMultipleSelectQuestion q ua)
           \<and> qr_isCorrect r = fst (snd (scoreMultipleSelectQuestion q ua))
           \<and> qr_isPartialCredit r =
               (fst (scoreMultipleSelectQuestion q ua) > 0
                \<and> fst (scoreMultipleSelectQuestion q ua) < q_score q)
           \<and> qr_percentage r =
               (if q_score q > 0
                then fst (scoreMultipleSelectQuestion q ua) / q_score q * 100 else 0)
           \<and> qr_userAnswers r = ua \<and> qr_maxPoints r = q_score q"
  using assms by (simp add: scoreQuestion_def Let_def split: prod.splits)

lemma scoreQuestion_standard:
  assumes "validateQuestionInput q ua = None" and "q_type q \<noteq> multipleSelect"
  shows "\<exists>r. scoreQuestion q ua t = Inr r
           \<and> qr_earnedPoints r = fst (scoreStandardQuestion q ua)
           \<and> qr_isCorrect r = snd (scoreStandardQuestion q ua)
           \<and> \<not> qr_isPartialCredit r
           \<and> qr_userAnswers r = ua \<and> qr_maxPoints r = q_score q"
  using assms
  by (cases "q_type q") (simp_all add: scoreQuestion_def Let_def split: prod.splits)

lemma scoreQuestion_Inr_valid:
  "scoreQuestion q ua t = Inr r \<Longrightarrow> validateQuestionInput q ua = None"
  by (cases "validateQuestionInput q ua") (simp_all add: scoreQuestion_def)


lemma partial_credit_table:
  fixes e S :: real and k c w :: nat
  assumes "e = S * (real c / real k) * max 0 (1 - real w / real k)"
  shows "(S = 15 \<and> k = 2 \<and> c = 2 \<and> w = 0 \<longrightarrow> e = 15)
       \<and> (S = 15 \<and> k = 2 \<and> c = 1 \<and> w = 0 \<longrightarrow> e = 7.5)
       \<and> (S = 15 \<and> k = 2 \<and> c = 2 \<and> w = 1 \<longrightarrow> e = 7.5)
       \<and> (S = 15 \<and> k = 2 \<and> c = 1 \<and> w = 1 \<longrightarrow> e = 3.75)
       \<and> (S = 15 \<and> k = 2 \<and> c = 0 \<and> w = 2 \<longrightarrow> e = 0)"
  by (simp add: assms)

text \<open>
  C1. A multiple-select question with base score \<open>S\<close> and \<open>k > 0\<close> distinct
  correct indices is scored on the set of the submitted answers, duplicates collapsed:
  with \<open>c\<close> distinct correct and \<open>w\<close> distinct incorrect indices submitted,
  \<open>scoreMultipleSelectQuestion\<close> returns the earned points
  \<open>S * (c / k) * max 0 (1 - w / k)\<close>. For \<open>k = 2\<close> and \<open>S = 15\<close> this is 15 at
  (2,0), 7.5 at (1,0), 7.5 at (2,1), 3.75 at (1,1) and 0 at (0,2). When the question
  and the submission pass validation, \<open>k\<close> is positive and \<open>scoreQuestion\<close> returns a
  result with these earned points.
\<close>

theorem multipleSelect_partial_credit:
  "(let S = q_score q;
        k = card (set (q_correctAnswers q));
        c = card (set ua \<inter> set (q_correctAnswers q));
        w = card (set ua - set (q_correctAnswers q));
        e = fst (scoreMultipleSelectQuestion q ua)
    in (k > 0 \<longrightarrow> e = S * (real c / real k) * max 0 (1 - real w / real k))
     \<and> (S = 15 \<and> k = 2 \<and> c = 2 \<and> w = 0 \<longrightarrow> e = 15)
     \<and> (S = 15 \<and> k = 2 \<and> c = 1 \<and> w = 0 \<longrightarrow> e = 7.5)
     \<and> (S = 15 \<and> k = 2 \<and> c = 2 \<and> w = 1 \<longrightarrow> e = 7.5)
     \<and> (S = 15 \<and> k = 2 \<and> c = 1 \<and> w = 1 \<longrightarrow> e = 3.75)
     \<and> (S = 15 \<and> k = 2 \<and> c = 0 \<and> w = 2 \<longrightarrow> e = 0)
     \<and> (q_type q = multipleSelect \<and> validateQuestionInput q ua = None \<longrightarrow>
          k > 0 \<and> (\<exists>r. scoreQuestion q ua t = Inr r \<and> qr_earnedPoints r = e)))"
proof -
  define k where "k = card (set (q_correctAnswers q))"
  define c where "c = card (set ua \<inter> set (q_correctAnswers q))"
  define w where "w = card (set ua - set (q_correctAnswers q))"
  define e where "e = fst (scoreMultipleSelectQuestion q ua)"
  have e: "e = q_score q * (real c / real k) * max 0 (1 - real w / real k)"
    unfolding e_def k_def c_def w_def
    by (simp add: scoreMultipleSelectQuestion_eq Let_def)
  have valid: "k > 0 \<and> (\<exists>r. scoreQuestion q ua t = Inr r \<and> qr_earnedPoints r = e)"
    if "q_type q = multipleSelect" "validateQuestionInput q ua = None"
  proof -
    have "set (q_correctAnswers q) \<noteq> {}"
      using validateQuestionInput_NoneD(1) [OF that(2)] by simp
    then have "k > 0"
      unfolding k_def by (simp add: card_gt_0_iff)
    then show ?thesis
      using scoreQuestion_multipleSelect [OF that(2) that(1), of t] unfolding e_def by blast
  qed
  have "(k > 0 \<longrightarrow> e = q_score q * (real c / real k) * max 0 (1 - real w / real k))
     \<and> (q_score q = 15 \<and> k = 2 \<and> c = 2 \<and> w = 0 \<longrightarrow> e = 15)
     \<and> (q_score q = 15 \<and> k = 2 \<and> c = 1 \<and> w = 0 \<longrightarrow> e = 7.5)
     \<and> (q_score q = 15 \<and> k = 2 \<and> c = 2 \<and> w = 1 \<longrightarrow> e = 7.5)
     \<and> (q_score q = 15 \<and> k = 2 \<and> c = 1 \<and> w = 1 \<longrightarrow> e = 3.75)
     \<and> (q_score q = 15 \<and> k = 2 \<and> c = 0 \<and> w = 2 \<longrightarrow> e = 0)
     \<and> (q_type q = multipleSelect \<and> validateQuestionInput q ua = None \<longrightarrow>
          k > 0 \<and> (\<exists>r. scoreQuestion q ua t = Inr r \<and> qr_earnedPoints r = e))"
    using e partial_credit_table [OF e] valid by blast
  then show ?thesis
    unfolding Let_def k_def c_def w_def e_def .
qed

theorem multipleSelect_partial_credit_witness:
  "q_type (select_question 15) = multipleSelect
   \<and> validateQuestionInput (select_question 15) [0, 2, 0] = None
   \<and> fst (scoreMultipleSelectQuestion (select_question 15) [0, 2, 0]) = 3.75
   \<and> (\<exists>r. scoreQuestion (select_question 15) [0, 2, 0] None = Inr r
          \<and> qr_earnedPoints r = 3.75)"
proof -
  have t: "q_type (select_question 15) = multipleSelect"
    by (simp add: select_question_def)
  have v: "validateQuestionInput (select_question 15) [0, 2, 0] = None"
    by (simp add: validateQuestionInput_def select_question_def four_options_def)
  have c: "card (set [0, 2, 0 :: int] \<inter> set (q_correctAnswers (select_question 15))) = 1"
    by (simp add: select_question_def)
  have w: "card (set [0, 2, 0 :: int] - set (q_correctAnswers (select_question 15))) = 1"
    by (simp add: select_question_def)
  have k: "card (set (q_correctAnswers (select_question 15))) = 2"
    by (simp add: select_question_def)
  have s: "q_score (select_question 15) = 15"
    by (simp add: select_question_def)
  note m = multipleSelect_partial_credit [of "select_question 15" "[0, 2, 0]" None,
             unfolded Let_def c w k s]
  have e: "fst (scoreMultipleSelectQuestion (select_question 15) [0, 2, 0]) = 3.75"
    using m by simp
  have "\<exists>r. scoreQuestion (select_question 15) [0, 2, 0] None = Inr r
          \<and> qr_earnedPoints r = fst (scoreMultipleSelectQuestion (select_question 15) [0, 2, 0])"
    using m t v by blast
  then show ?thesis
    using t v e by simp
qed

lemma scoreStandardQuestion_single:
  assumes "q_correctAnswers q = [c]"
  shows "scoreStandardQuestion q ua = (if ua = [c] then q_score q else 0, ua = [c])"
proof -
  have "(length ua = 1 \<and> ua ! 0 = c) = (ua = [c])"
    by (cases ua) auto
  then show ?thesis
    by (auto simp: scoreStandardQuestion_def Let_def assms)
qed

text \<open>
  C5, as amended. A multiple-choice or true/false question that passes validation has
  exactly one correct index \<open>c\<close>; its result is marked correct iff the submitted
  list is exactly \<open>[c]\<close>, the earned points are the base score in that case and 0 for
  every other submission, and the result is never partial credit. The number of answer
  options plays no part.
\<close>

theorem standard_question_all_or_nothing:
  assumes "q_type q = multipleChoice \<or> q_type q = trueFalse"
    and "validateQuestionInput q ua = None"
  shows "\<exists>r c. q_correctAnswers q = [c] \<and> scoreQuestion q ua t = Inr r
           \<and> (qr_isCorrect r \<longleftrightarrow> ua = [c])
           \<and> qr_earnedPoints r = (if ua = [c] then q_score q else 0)
           \<and> \<not> qr_isPartialCredit r"
proof -
  have ns: "q_type q \<noteq> multipleSelect" using assms(1) by auto
  have "length (q_correctAnswers q) = 1"
    using validateQuestionInput_NoneD(3) [OF assms(2) ns] .
  then obtain c where c: "q_correctAnswers q = [c]"
    by (cases "q_correctAnswers q") auto
  obtain r where r: "scoreQuestion q ua t = Inr r"
      "qr_earnedPoints r = fst (scoreStandardQuestion q ua)"
      "qr_isCorrect r = snd (scoreStandardQuestion q ua)"
      "\<not> qr_isPartialCredit r"
    using scoreQuestion_standard [OF assms(2) ns, of t] by blast
  show ?thesis
    using c r by (simp add: scoreStandardQuestion_single [OF c])
qed

theorem standard_question_all_or_nothing_witness:
  "(q_type choice_question = multipleChoice \<or> q_type choice_question = trueFalse)
   \<and> validateQuestionInput choice_question [0] = None
   \<and> (\<exists>r. scoreQuestion choice_question [0] None = Inr r
          \<and> qr_isCorrect r \<and> qr_earnedPoints r = 10)"
proof -
  have t: "q_type choice_question = multipleChoice \<or> q_type choice_question = trueFalse"
    by (simp add: choice_question_def)
  have v: "validateQuestionInput choice_question [0] = None"
    by (simp add: validateQuestionInput_def choice_question_def four_options_def)
  have c: "q_correctAnswers choice_question = [0]" "q_score choice_question = 10"
    by (simp_all add: choice_question_def)
  show ?thesis
    using standard_question_all_or_nothing [OF t v, of None] t v
    by (auto simp: c)
qed

text \<open>
  C5, as stated, fails on a submission that repeats the correct index: the submitted
  list \<open>[0, 0]\<close> is the set \<open>{0}\<close>, whose one element is the correct index, yet its
  length is 2 and the question is graded incorrect with 0 points.
\<close>

theorem standard_question_duplicate_counterexample:
  "q_type choice_question = multipleChoice
   \<and> q_correctAnswers choice_question = [0]
   \<and> set [0, 0] = {0 :: int}
   \<and> scoreQuestion choice_question [0, 0] None =
       Inr \<lparr> qr_questionId = ''pr-001'',
             qr_category = PatternRecognitionAndSequences,
             qr_type = multipleChoice,
             qr_userAnswers = [0, 0],
             qr_correctAnswers = [0],
             qr_earnedPoints = 0,
             qr_maxPoints = 10,
             qr_percentage = 0,
             qr_isCorrect = False,
             qr_isPartialCredit = False,
             qr_partialCreditDetails = None,
             qr_weight = 3,
             qr_timeSpent = None \<rparr>"
  by (simp add: scoreQuestion_def validateQuestionInput_def scoreStandardQuestion_def
                choice_question_def four_options_def)

text \<open>
  C9, as stated, fails: a multiple-select question with base score 0, answered with
  exactly its correct set, is marked correct.
\<close>

theorem zero_score_select_counterexample:
  "q_type (select_question 0) = multipleSelect
   \<and> q_score (select_question 0) = 0
   \<and> q_correctAnswers (select_question 0) = [0, 1]
   \<and> scoreQuestion (select_question 0) [0, 1] None =
       Inr \<lparr> qr_questionId = ''lr-002'',
             qr_category = LogicalReasoning,
             qr_type = multipleSelect,
             qr_userAnswers = [0, 1],
             qr_correctAnswers = [0, 1],
             qr_earnedPoints = 0,
             qr_maxPoints = 0,
             qr_percentage = 0,
             qr_isCorrect = True,
             qr_isPartialCredit = False,
             qr_partialCreditDetails =
               Some \<lparr> correctSelections = 2, incorrectSelections = 0,
                      missedSelections = 0, correctRatio = 1, penaltyFactor = 1 \<rparr>,
             qr_weight = 2,
             qr_timeSpent = None \<rparr>"
  by (simp add: scoreQuestion_def validateQuestionInput_def scoreMultipleSelectQuestion_eq
                select_question_def four_options_def Let_def)

text \<open>
  C9, as amended. For a multiple-select question with base score 0 that passes
  validation, a submission whose set is the correct set is marked correct and is not
  marked partial credit; it earns 0 points and has percentage 0.
\<close>

theorem zero_score_select_is_correct:
  assumes "q_type q = multipleSelect" and "validateQuestionInput q ua = None"
    and "q_score q = 0" and "set ua = set (q_correctAnswers q)"
  shows "\<exists>r. scoreQuestion q ua t = Inr r \<and> qr_isCorrect r \<and> \<not> qr_isPartialCredit r
           \<and> qr_earnedPoints r = 0 \<and> qr_percentage r = 0"
proof -
  obtain r where r: "scoreQuestion q ua t = Inr r"
      "qr_earnedPoints r = fst (scoreMultipleSelectQuestion q ua)"
      "qr_isCorrect r = fst (snd (scoreMultipleSelectQuestion q ua))"
      "qr_isPartialCredit r =
         (fst (scoreMultipleSelectQuestion q ua) > 0
          \<and> fst (scoreMultipleSelectQuestion q ua) < q_score q)"
      "qr_percentage r =
         (if q_score q > 0
          then fst (scoreMultipleSelectQuestion q ua) / q_score q * 100 else 0)"
    using scoreQuestion_multipleSelect [OF assms(2) assms(1), of t] by blast
  have "fst (scoreMultipleSelectQuestion q ua) = 0"
    by (simp add: scoreMultipleSelectQuestion_eq Let_def assms(3))
  moreover have "fst (snd (scoreMultipleSelectQuestion q ua))"
    by (simp add: scoreMultipleSelectQuestion_eq Let_def assms(4))
  ultimately show ?thesis
    using r by (simp add: assms(3))
qed

theorem zero_score_select_is_correct_witness:
  "q_type (select_question 0) = multipleSelect
   \<and> validateQuestionInput (select_question 0) [1, 0] = None
   \<and> q_score (select_question 0) = 0
   \<and> set [1, 0] = set (q_correctAnswers (select_question 0))
   \<and> (\<exists>r. scoreQuestion (select_question 0) [1, 0] None = Inr r
          \<and> qr_isCorrect r \<and> \<not> qr_isPartialCredit r)"
proof -
  have t: "q_type (select_question 0) = multipleSelect"
    by (simp add: select_question_def)
  have v: "validateQuestionInput (select_question 0) [1, 0] = None"
    by (simp add: validateQuestionInput_def select_question_def four_options_def)
  have s: "q_score (select_question 0) = 0"
    by (simp add: select_question_def)
  have e: "set [1, 0] = set (q_correctAnswers (select_question 0))"
    by (auto simp: select_question_def)
  show ?thesis
    using zero_score_select_is_correct [OF t v s e, of None] t v s e by blast
qed



section \<open>Properties of the scoring pass over a question list\<close>

lemma validateRequiredFields_None:
  "validateQuestionInput q ua = None \<Longrightarrow> validateRequiredFields q = None"
  by (auto simp: validateQuestionInput_def validateRequiredFields_def Let_def
           split: if_splits)

lemma validateRequiredFields_Some:
  "validateRequiredFields q = Some e \<Longrightarrow> validateQuestionInput q ua = Some e"
  by (auto simp: validateQuestionInput_def validateRequiredFields_def Let_def
           split: if_splits)

lemma scoreQuestion_empty_submission:
  assumes "scoreQuestion q [] t = Inr r"
  shows "qr_userAnswers r = [] \<and> qr_earnedPoints r = 0 \<and> \<not> qr_isCorrect r
         \<and> \<not> qr_isPartialCredit r"
proof -
  have v: "validateQuestionInput q [] = None"
    using assms by (rule scoreQuestion_Inr_valid)
  have ne: "q_correctAnswers q \<noteq> []"
    using validateQuestionInput_NoneD(1) [OF v] .
  then have k: "card (set (q_correctAnswers q)) \<noteq> 0" by simp
  show ?thesis
  proof (cases "q_type q = multipleSelect")
    case True
    have e: "fst (scoreMultipleSelectQuestion q []) = 0"
      by (simp add: scoreMultipleSelectQuestion_eq Let_def)
    have c: "\<not> fst (snd (scoreMultipleSelectQuestion q []))"
      using k by (simp add: scoreMultipleSelectQuestion_eq Let_def)
    from scoreQuestion_multipleSelect [OF v True, of t] assms e c
    show ?thesis by auto
  next
    case False
    have "scoreStandardQuestion q [] = (0, False)"
      by (simp add: scoreStandardQuestion_def)
    with scoreQuestion_standard [OF v False, of t] assms
    show ?thesis by auto
  qed
qed

text \<open>
  When a pass returns, a question whose id has no entry in the answer map has been
  graded on the empty submission, and its id names no member of \<open>Object.prototype\<close>.
\<close>

lemma scoreQuestions_absent_answer:
  assumes "scoreQuestions qs ua ts = Inr rs" and "i < length qs"
    and "ua (q_id (qs ! i)) = None"
  shows "q_id (qs ! i) \<notin> set Object_prototype_names
         \<and> qr_userAnswers (rs ! i) = [] \<and> qr_earnedPoints (rs ! i) = 0
         \<and> \<not> qr_isCorrect (rs ! i) \<and> \<not> qr_isPartialCredit (rs ! i)"
  using assms
proof (induction qs arbitrary: rs i)
  case Nil
  then show ?case by simp
next
  case (Cons q qs)
  from Cons.prems(1) obtain r rs0 where rs: "rs = r # rs0"
    and rest: "scoreQuestions qs ua ts = Inr rs0"
    by (auto simp: Let_def split: sum.splits)
  show ?case
  proof (cases i)
    case 0
    then have absent: "ua (q_id q) = None" using Cons.prems(3) by simp
    have notin: "q_id q \<notin> set Object_prototype_names"
    proof
      assume "q_id q \<in> set Object_prototype_names"
      then have "get_property ua (q_id q) = Inherited"
        using absent by (simp add: get_property_def)
      then show False using Cons.prems(1) by (simp add: Let_def)
    qed
    then have "get_property ua (q_id q) = Undefined"
      using absent by (simp add: get_property_def)
    then obtain t where "scoreQuestion q [] t = Inr r"
      using Cons.prems(1) rs by (auto simp: Let_def split: sum.splits)
    from scoreQuestion_empty_submission [OF this] notin show ?thesis
      using 0 rs by simp
  next
    case (Suc j)
    then show ?thesis
      using Cons.IH [OF rest, of j] Cons.prems(2,3) rs by simp
  qed
qed

text \<open>
  C6. The valid question \<open>constructor_question\<close> has the id \<open>constructor\<close>. With no
  answer stored for it, the lookup \<open>userAnswers[question.id]\<close> returns the inherited
  member \<open>Object.prototype.constructor\<close> instead of \<open>undefined\<close>, the default
  \<open>|| []\<close> is not taken, and the pass ends with the \<open>TypeError\<close> of the validation
  loop, where the claim wants the question graded on the empty submission with 0 points.
  The same question with the empty submission passes validation and scores 0.
\<close>

theorem missing_answer_inherited_member_throws:
  "q_id constructor_question = ''constructor''
   \<and> Map.empty (q_id constructor_question) = (None :: int list option)
   \<and> validateQuestionInput constructor_question [] = None
   \<and> scoreQuestions [constructor_question] Map.empty None = Inl NotIterable
   \<and> scoreQuestions [choice_question, constructor_question] [''pr-001'' \<mapsto> [0]] None
       = Inl NotIterable"
proof -
  have v: "validateQuestionInput constructor_question [] = None"
    by (simp add: validateQuestionInput_def constructor_question_def four_options_def)
  have v1: "validateQuestionInput choice_question [0] = None"
    by (simp add: validateQuestionInput_def choice_question_def four_options_def)
  obtain r1 where r1: "scoreQuestion choice_question [0] None = Inr r1"
    using scoreQuestion_standard [OF v1, of None] by (auto simp: choice_question_def)
  have f: "validateRequiredFields constructor_question = None"
    using v by (rule validateRequiredFields_None)
  have id1: "q_id choice_question = ''pr-001''" by (simp add: choice_question_def)
  have id2: "q_id constructor_question = ''constructor''"
    by (simp add: constructor_question_def)
  have g: "get_property (m :: string \<rightharpoonup> int list) ''constructor'' = Inherited"
    if "m ''constructor'' = None" for m
    using that by (simp add: get_property_def Object_prototype_names_def)
  have g1: "get_property [''pr-001'' \<mapsto> [0::int]] ''pr-001'' = Own [0]"
    by (simp add: get_property_def)
  show ?thesis
    by (simp add: id1 id2 v g g1 r1 f scoreQuestion_notIterable_def)
qed

section \<open>Properties of the overall score and the weighted contributions\<close>









section \<open>Properties of rounding to double precision\<close>

lemma round_to_even_of_int [simp]: "round_to_even (of_int k) = k"
  by (simp add: round_to_even_def)

lemma double_zero [simp]: "double 0 = 0"
  by (simp add: double_def)

lemma floor_log2_powi:
  assumes "0 < x"
  shows "(\<lfloor>log 2 x\<rfloor> = k) = (2 powi k \<le> x \<and> x < 2 powi (k + 1))"
proof -
  have a: "(2::real) powr real_of_int k = 2 powi k"
    by (rule powr_real_of_int') simp_all
  have b: "(2::real) powr real_of_int (k + 1) = 2 powi (k + 1)"
    by (rule powr_real_of_int') simp_all
  show ?thesis
    using floor_log_eq_powr_iff [of x 2 k] assms unfolding a b by simp
qed

text \<open>Rounding a number whose binary exponent is known.\<close>

lemma double_binade:
  assumes "2 powi k \<le> \<bar>x\<bar>" and "\<bar>x\<bar> < 2 powi (k + 1)" and "- 1022 \<le> k"
  shows "double x = of_int (round_to_even (x / 2 powi (k - 52))) * 2 powi (k - 52)"
proof -
  have "(0::real) < 2 powi k" by simp
  then have pos: "0 < \<bar>x\<bar>" using assms(1) by linarith
  then have x0: "x \<noteq> 0" by auto
  have "\<lfloor>log 2 \<bar>x\<bar>\<rfloor> = k"
    using assms(1,2) floor_log2_powi [OF pos, of k] by simp
  then have e: "max (- 1022) \<lfloor>log 2 \<bar>x\<bar>\<rfloor> = k"
    using assms(3) by simp
  show ?thesis
    using x0 by (simp add: double_def e Let_def)
qed

text \<open>Integers below \<open>2 ^ 53\<close> are doubles.\<close>

lemma double_of_int:
  assumes "\<bar>m\<bar> < 2 ^ 53"
  shows "double (of_int m) = of_int m"
proof (cases "m = 0")
  case True
  then show ?thesis by simp
next
  case False
  define k where "k = \<lfloor>log 2 \<bar>real_of_int m\<bar>\<rfloor>"
  have pos: "0 < \<bar>real_of_int m\<bar>" using False by simp
  have ge1: "1 \<le> \<bar>real_of_int m\<bar>" using False by (simp flip: of_int_abs)
  have b: "2 powi k \<le> \<bar>real_of_int m\<bar>" "\<bar>real_of_int m\<bar> < 2 powi (k + 1)"
    using floor_log2_powi [OF pos, of k] k_def by simp_all
  have k0: "0 \<le> k"
    unfolding k_def using ge1 by simp
  have "real_of_int \<bar>m\<bar> < real_of_int (2 ^ 53)"
    using assms by (simp only: of_int_less_iff)
  then have "\<bar>real_of_int m\<bar> < 2 powi 53"
    by simp
  with b(1) have "(2::real) powi k < 2 powi 53" by linarith
  then have "k < 53"
    by (rule power_int_le_imp_less_exp [rotated]) simp_all
  then have k52: "k \<le> 52" by simp
  obtain j :: nat where j: "52 - k = int j"
    using k52 by (metis diff_ge_0_iff_ge nonneg_int_cases)
  have u: "(2::real) powi (k - 52) = 1 / 2 ^ j"
  proof -
    have "k - 52 = - int j" using j by simp
    then show ?thesis by (simp add: power_int_minus inverse_eq_divide)
  qed
  have "real_of_int m / (1 / 2 ^ j) = of_int (m * 2 ^ j)" by simp
  then have r: "round_to_even (real_of_int m / (1 / 2 ^ j)) = m * 2 ^ j"
    by (simp only: round_to_even_of_int)
  have "- 1022 \<le> k" using k0 by simp
  from double_binade [OF b this] show ?thesis
    unfolding u r by simp
qed


lemma double_one [simp]: "double 1 = 1"
  using double_of_int [of 1] by simp

section \<open>The weighted contributions in double precision\<close>






section \<open>Properties of the category scorer\<close>













section \<open>Properties of the consistency metric\<close>



section \<open>The consistency metric in double precision\<close>

lemma dsub_self [simp]: "dsub x x = 0"
  by (simp add: dsub_def)













end
